theory Spec2Isabelle
  imports Complex_Main "HOL-Library.Word"
begin

section \<open>JavaScript values\<close>

text \<open>
  A JavaScript string is a sequence of UTF-16 code units; \<open>substring\<close> and the property
  lookup of an object both work on code units. The literals of the component are ASCII
  and are written with \<open>ascii\<close>.
\<close>

type_synonym jsstring = "16 word list"

definition ascii :: "string \<Rightarrow> jsstring" where
  "ascii s = map of_char s"

text \<open>
  The chart payload has the TypeScript type \<open>any\<close>; it is what \<open>res.json()\<close> returned, or
  \<open>undefined\<close> when the field \<open>chart_data\<close> is absent. An object is the list of its own
  properties.
\<close>

datatype json =
    JUndefined
  | JNull
  | JBool bool
  | JNum real
  | JStr jsstring
  | JArr "json list"
  | JObj "(jsstring \<times> json) list"

datatype error = TypeError

text \<open>Truthiness, as \<open>!v\<close> and \<open>v || d\<close> test it; an empty array is truthy.\<close>

fun truthy :: "json \<Rightarrow> bool" where
  "truthy JUndefined = False"
| "truthy JNull = False"
| "truthy (JBool b) = b"
| "truthy (JNum r) = (r \<noteq> 0)"
| "truthy (JStr s) = (s \<noteq> [])"
| "truthy (JArr vs) = True"
| "truthy (JObj ps) = True"

text \<open>
  Property access \<open>v[k]\<close> and \<open>v.k\<close> on a payload value. Reading a property of
  \<open>null\<close> or \<open>undefined\<close> throws a TypeError. The component reads only the keys
  \<open>house_N\<close>, \<open>planets\<close> and \<open>name\<close> from the payload; no prototype of a JSON value has a
  property of one of these names, so a key that is not an own property reads as
  \<open>undefined\<close>.
\<close>

fun getProp :: "json \<Rightarrow> jsstring \<Rightarrow> error + json" where
  "getProp JUndefined k = Inl TypeError"
| "getProp JNull k = Inl TypeError"
| "getProp (JObj ps) k = Inr (case map_of ps k of Some v \<Rightarrow> v | None \<Rightarrow> JUndefined)"
| "getProp v k = Inr JUndefined"

text \<open>
  The numbers the component computes are small integers, or \<open>NaN\<close>. The operator \<open>%\<close>
  is the remainder of the division that truncates towards zero: its result has the sign
  of the dividend.
\<close>

datatype jsnum = Num int | NaN

definition js_rem :: "int \<Rightarrow> int \<Rightarrow> int" where
  "js_rem a b = sgn a * (\<bar>a\<bar> mod \<bar>b\<bar>)"

text \<open>The decimal digits of a number, as a template literal prints it.\<close>

fun decimal :: "nat \<Rightarrow> jsstring" where
  "decimal n =
     (if n < 10 then [of_nat (48 + n)]
      else decimal (n div 10) @ [of_nat (48 + n mod 10)])"

declare decimal.simps [simp del]

section \<open>The tables of the component\<close>

text \<open>\<open>SIGN_MAP\<close>: sign name to sign number, Aries = 1.\<close>

definition SIGN_MAP :: "(jsstring \<times> int) list" where
  "SIGN_MAP =
     [(ascii ''Aries'', 1), (ascii ''Taurus'', 2), (ascii ''Gemini'', 3),
      (ascii ''Cancer'', 4), (ascii ''Leo'', 5), (ascii ''Virgo'', 6),
      (ascii ''Libra'', 7), (ascii ''Scorpio'', 8), (ascii ''Sagittarius'', 9),
      (ascii ''Capricorn'', 10), (ascii ''Aquarius'', 11), (ascii ''Pisces'', 12)]"

text \<open>
  \<open>SIGN_MAP\<close> is an object literal, so its prototype is \<open>Object.prototype\<close>, and a key
  that is not an own property is looked up there. These are the property names of
  \<open>Object.prototype\<close>: eleven functions and the accessor \<open>__proto__\<close>, which yields the
  prototype object itself.
\<close>

definition Object_prototype :: "jsstring list" where
  "Object_prototype =
     [ascii ''constructor'', ascii ''hasOwnProperty'', ascii ''isPrototypeOf'',
      ascii ''propertyIsEnumerable'', ascii ''toLocaleString'', ascii ''toString'',
      ascii ''valueOf'', ascii ''__proto__'', ascii ''__defineGetter__'',
      ascii ''__defineSetter__'', ascii ''__lookupGetter__'', ascii ''__lookupSetter__'']"

text \<open>
  What \<open>SIGN_MAP[key]\<close> evaluates to: the number of an own property, a function or
  object inherited from \<open>Object.prototype\<close>, or \<open>undefined\<close>.
\<close>

datatype signval = SNumber int | SInherited jsstring | SUndefined

definition lookupSign :: "jsstring \<Rightarrow> signval" where
  "lookupSign k =
     (case map_of SIGN_MAP k of
        Some n \<Rightarrow> SNumber n
      | None \<Rightarrow> if k \<in> set Object_prototype then SInherited k else SUndefined)"

fun truthySign :: "signval \<Rightarrow> bool" where
  "truthySign (SNumber n) = (n \<noteq> 0)"
| "truthySign (SInherited k) = True"
| "truthySign SUndefined = False"

text \<open>\<open>HOUSE_CENTERS\<close>: centre points for text in a 100 x 100 SVG, house 1 first.\<close>

record point =
  pt_x :: int
  pt_y :: int

definition HOUSE_CENTERS :: "point list" where
  "HOUSE_CENTERS =
     [\<lparr>pt_x = 50, pt_y = 20\<rparr>, \<lparr>pt_x = 20, pt_y = 10\<rparr>, \<lparr>pt_x = 10, pt_y = 20\<rparr>,
      \<lparr>pt_x = 25, pt_y = 50\<rparr>, \<lparr>pt_x = 10, pt_y = 80\<rparr>, \<lparr>pt_x = 20, pt_y = 90\<rparr>,
      \<lparr>pt_x = 50, pt_y = 80\<rparr>, \<lparr>pt_x = 80, pt_y = 90\<rparr>, \<lparr>pt_x = 90, pt_y = 80\<rparr>,
      \<lparr>pt_x = 75, pt_y = 50\<rparr>, \<lparr>pt_x = 90, pt_y = 20\<rparr>, \<lparr>pt_x = 80, pt_y = 10\<rparr>]"

text \<open>\<open>SIGN_POSITIONS\<close>: ten entries, read by nothing in the component.\<close>

record signpos =
  sp_x :: int
  sp_y :: int
  sp_anchor :: string

definition SIGN_POSITIONS :: "signpos list" where
  "SIGN_POSITIONS =
     [\<lparr>sp_x = 50, sp_y = 45, sp_anchor = ''middle''\<rparr>,
      \<lparr>sp_x = 45, sp_y = 5, sp_anchor = ''start''\<rparr>,
      \<lparr>sp_x = 5, sp_y = 45, sp_anchor = ''start''\<rparr>,
      \<lparr>sp_x = 50, sp_y = 55, sp_anchor = ''middle''\<rparr>,
      \<lparr>sp_x = 5, sp_y = 55, sp_anchor = ''start''\<rparr>,
      \<lparr>sp_x = 45, sp_y = 95, sp_anchor = ''start''\<rparr>,
      \<lparr>sp_x = 50, sp_y = 65, sp_anchor = ''middle''\<rparr>,
      \<lparr>sp_x = 55, sp_y = 95, sp_anchor = ''end''\<rparr>,
      \<lparr>sp_x = 95, sp_y = 55, sp_anchor = ''end''\<rparr>,
      \<lparr>sp_x = 50, sp_y = 45, sp_anchor = ''middle''\<rparr>]"

section \<open>The component\<close>

text \<open>
  The rendered elements. A \<open>tspan\<close> carries its key, its \<open>x\<close> and \<open>dy\<close> attributes and its
  text; a house \<open>text\<close> element carries its position and what \<open>renderPlanets\<close> returned
  (\<open>None\<close> for \<open>null\<close>); a sign \<open>text\<close> element carries its position and its number.
\<close>

record tspan =
  ts_key :: jsstring
  ts_x :: int
  ts_dy :: int
  ts_text :: jsstring

record house_text =
  ht_x :: int
  ht_y :: int
  ht_children :: "tspan list option"

record sign_text =
  st_x :: int
  st_y :: int
  st_num :: jsnum

record line =
  x1 :: int
  y1 :: int
  x2 :: int
  y2 :: int

record rect =
  rect_x :: int
  rect_y :: int
  rect_width :: int
  rect_height :: int

record chart =
  box :: rect
  grid :: "line list"
  houses :: "house_text list"
  signs :: "sign_text list"

text \<open>\<open>const ascNum = SIGN_MAP[ascendantSign] || 1\<close>\<close>

definition ascNum :: "jsstring \<Rightarrow> signval" where
  "ascNum ascendantSign =
     (let v = lookupSign ascendantSign in if truthySign v then v else SNumber 1)"

text \<open>
  \<open>getSignNum\<close>: \<open>((ascNum + houseIdx - 1) % 12) + 1\<close>. With a function or an object for
  \<open>ascNum\<close> the operator \<open>+\<close> concatenates strings, the subtraction then yields \<open>NaN\<close>, and
  \<open>NaN\<close> stays through \<open>%\<close> and \<open>+\<close>; \<open>undefined\<close> gives \<open>NaN\<close> at once.
\<close>

fun getSignNum :: "signval \<Rightarrow> int \<Rightarrow> jsnum" where
  "getSignNum (SNumber a) houseIdx = Num (js_rem (a + houseIdx - 1) 12 + 1)"
| "getSignNum (SInherited k) houseIdx = NaN"
| "getSignNum SUndefined houseIdx = NaN"

text \<open>
  The callback of \<open>houseData.planets.map\<close>, for the planet \<open>p\<close> at index \<open>i\<close> of the house
  \<open>houseIndex\<close>. It throws a TypeError when \<open>p\<close> is \<open>null\<close> or \<open>undefined\<close>, when
  \<open>HOUSE_CENTERS[houseIndex]\<close> is \<open>undefined\<close>, and when \<open>p.name\<close> is not a string (it then
  has no method \<open>substring\<close>).
\<close>

definition planetSpan :: "nat \<Rightarrow> nat \<Rightarrow> json \<Rightarrow> error + tspan" where
  "planetSpan houseIndex i p =
     (case getProp p (ascii ''name'') of
        Inl e \<Rightarrow> Inl e
      | Inr nm \<Rightarrow>
          if \<not> houseIndex < length HOUSE_CENTERS then Inl TypeError
          else (case nm of
                  JStr s \<Rightarrow>
                    Inr \<lparr>ts_key = s, ts_x = pt_x (HOUSE_CENTERS ! houseIndex),
                         ts_dy = (if i = 0 then 0 else 12), ts_text = take 2 s\<rparr>
                | _ \<Rightarrow> Inl TypeError))"

fun mapPlanets :: "nat \<Rightarrow> nat \<Rightarrow> json list \<Rightarrow> error + tspan list" where
  "mapPlanets houseIndex i [] = Inr []"
| "mapPlanets houseIndex i (p # ps) =
     (case planetSpan houseIndex i p of
        Inl e \<Rightarrow> Inl e
      | Inr t \<Rightarrow>
          (case mapPlanets houseIndex (Suc i) ps of
             Inl e \<Rightarrow> Inl e
           | Inr ts \<Rightarrow> Inr (t # ts)))"

definition houseKey :: "nat \<Rightarrow> jsstring" where
  "houseKey houseIndex = ascii ''house_'' @ decimal (houseIndex + 1)"

text \<open>
  \<open>renderPlanets\<close>. A truthy \<open>planets\<close> that is not an array has no method \<open>map\<close>, and
  calling it throws a TypeError.
\<close>

definition renderPlanets :: "json \<Rightarrow> nat \<Rightarrow> error + tspan list option" where
  "renderPlanets data houseIndex =
     (case getProp data (houseKey houseIndex) of
        Inl e \<Rightarrow> Inl e
      | Inr houseData \<Rightarrow>
          if \<not> truthy houseData then Inr None
          else (case getProp houseData (ascii ''planets'') of
                  Inl e \<Rightarrow> Inl e
                | Inr planets \<Rightarrow>
                    if \<not> truthy planets then Inr None
                    else (case planets of
                            JArr ps \<Rightarrow>
                              (case mapPlanets houseIndex 0 ps of
                                 Inl e \<Rightarrow> Inl e
                               | Inr ts \<Rightarrow> Inr (Some ts))
                          | _ \<Rightarrow> Inl TypeError)))"

text \<open>\<open>HOUSE_CENTERS.map((pos, i) => <text x={pos.x} y={pos.y}>{renderPlanets(i)}</text>)\<close>\<close>

fun mapHouses :: "json \<Rightarrow> nat \<Rightarrow> point list \<Rightarrow> error + house_text list" where
  "mapHouses data i [] = Inr []"
| "mapHouses data i (pos # rest) =
     (case renderPlanets data i of
        Inl e \<Rightarrow> Inl e
      | Inr ch \<Rightarrow>
          (case mapHouses data (Suc i) rest of
             Inl e \<Rightarrow> Inl e
           | Inr hs \<Rightarrow> Inr (\<lparr>ht_x = pt_x pos, ht_y = pt_y pos, ht_children = ch\<rparr> # hs)))"

text \<open>The outer box, and the lines of the two diagonals and of the inner diamond.\<close>

definition outerBox :: rect where
  "outerBox = \<lparr>rect_x = 0, rect_y = 0, rect_width = 100, rect_height = 100\<rparr>"

definition gridLines :: "line list" where
  "gridLines =
     [\<lparr>x1 = 0, y1 = 0, x2 = 100, y2 = 100\<rparr>, \<lparr>x1 = 100, y1 = 0, x2 = 0, y2 = 100\<rparr>,
      \<lparr>x1 = 50, y1 = 0, x2 = 0, y2 = 50\<rparr>, \<lparr>x1 = 0, y1 = 50, x2 = 50, y2 = 100\<rparr>,
      \<lparr>x1 = 50, y1 = 100, x2 = 100, y2 = 50\<rparr>, \<lparr>x1 = 100, y1 = 50, x2 = 50, y2 = 0\<rparr>]"

text \<open>The twelve sign-number elements, at the positions written in the markup.\<close>

definition signTexts :: "signval \<Rightarrow> sign_text list" where
  "signTexts a =
     [\<lparr>st_x = 50, st_y = 42, st_num = getSignNum a 0\<rparr>,
      \<lparr>st_x = 15, st_y = 8, st_num = getSignNum a 1\<rparr>,
      \<lparr>st_x = 5, st_y = 18, st_num = getSignNum a 2\<rparr>,
      \<lparr>st_x = 40, st_y = 52, st_num = getSignNum a 3\<rparr>,
      \<lparr>st_x = 5, st_y = 85, st_num = getSignNum a 4\<rparr>,
      \<lparr>st_x = 15, st_y = 95, st_num = getSignNum a 5\<rparr>,
      \<lparr>st_x = 50, st_y = 60, st_num = getSignNum a 6\<rparr>,
      \<lparr>st_x = 85, st_y = 95, st_num = getSignNum a 7\<rparr>,
      \<lparr>st_x = 95, st_y = 85, st_num = getSignNum a 8\<rparr>,
      \<lparr>st_x = 60, st_y = 52, st_num = getSignNum a 9\<rparr>,
      \<lparr>st_x = 95, st_y = 18, st_num = getSignNum a 10\<rparr>,
      \<lparr>st_x = 85, st_y = 8, st_num = getSignNum a 11\<rparr>]"

definition NorthIndianChart :: "json \<Rightarrow> jsstring \<Rightarrow> error + chart" where
  "NorthIndianChart data ascendantSign =
     (case mapHouses data 0 HOUSE_CENTERS of
        Inl e \<Rightarrow> Inl e
      | Inr hs \<Rightarrow>
          Inr \<lparr>box = outerBox, grid = gridLines, houses = hs, signs = signTexts (ascNum ascendantSign)\<rparr>)"

section \<open>Structure of the rendering\<close>

lemma length_HOUSE_CENTERS: "length HOUSE_CENTERS = 12"
  by (simp add: HOUSE_CENTERS_def)

lemma less_12_cases: "j < 12 \<Longrightarrow> j \<in> {0, 1, 2, 3, 4, 5, 6, 7, 8, 9, 10, 11 :: nat}"
  by simp arith

lemma houseKeys:
  "houseKey 0 = ascii ''house_1''" "houseKey 1 = ascii ''house_2''"
  "houseKey 2 = ascii ''house_3''" "houseKey 3 = ascii ''house_4''"
  "houseKey 4 = ascii ''house_5''" "houseKey 5 = ascii ''house_6''"
  "houseKey 6 = ascii ''house_7''" "houseKey 7 = ascii ''house_8''"
  "houseKey 8 = ascii ''house_9''" "houseKey 9 = ascii ''house_10''"
  "houseKey 10 = ascii ''house_11''" "houseKey 11 = ascii ''house_12''"
  "houseKey (Suc 0) = ascii ''house_2''"
  by (simp_all add: houseKey_def decimal.simps ascii_def)

lemma planetSpan_named:
  assumes "h < 12" and "getProp p (ascii ''name'') = Inr (JStr s)"
  shows "planetSpan h i p =
           Inr \<lparr>ts_key = s, ts_x = pt_x (HOUSE_CENTERS ! h),
                ts_dy = (if i = 0 then 0 else 12), ts_text = take 2 s\<rparr>"
  using assms by (simp add: planetSpan_def length_HOUSE_CENTERS)

lemma mapPlanets_named:
  assumes "h < 12"
    and "map (\<lambda>p. getProp p (ascii ''name'')) ps = map (\<lambda>s. Inr (JStr s)) ns"
  shows "mapPlanets h i ps =
           Inr (map (\<lambda>(j, s). \<lparr>ts_key = s, ts_x = pt_x (HOUSE_CENTERS ! h),
                                ts_dy = (if j = 0 then 0 else 12), ts_text = take 2 s\<rparr>)
                  (enumerate i ns))"
  using assms(2)
proof (induction ps arbitrary: i ns)
  case Nil
  then show ?case by simp
next
  case (Cons p ps)
  then obtain s ns' where ns: "ns = s # ns'"
    by (cases ns) auto
  with Cons.prems have p: "getProp p (ascii ''name'') = Inr (JStr s)"
    and rest: "map (\<lambda>p. getProp p (ascii ''name'')) ps = map (\<lambda>s. Inr (JStr s)) ns'"
    by simp_all
  show ?case
    by (simp add: ns planetSpan_named [OF assms(1) p] Cons.IH [OF rest])
qed

lemma mapPlanets_length: "mapPlanets h i ps = Inr ts \<Longrightarrow> length ts = length ps"
  by (induction ps arbitrary: i ts) (auto split: sum.splits)

lemma mapPlanets_empty_house: "mapPlanets h i [] = Inr []"
  by simp

lemma renderPlanets_array:
  assumes "getProp data (houseKey h) = Inr entry"
    and "getProp entry (ascii ''planets'') = Inr (JArr ps)"
  shows "renderPlanets data h =
           (case mapPlanets h 0 ps of Inl e \<Rightarrow> Inl e | Inr ts \<Rightarrow> Inr (Some ts))"
proof -
  from assms(2) have "truthy entry"
    by (cases entry) simp_all
  with assms show ?thesis
    by (simp add: renderPlanets_def)
qed

lemma mapHouses_result:
  "mapHouses data i cs = Inr hs \<Longrightarrow>
     length hs = length cs \<and>
     (\<forall>j<length cs. renderPlanets data (i + j) = Inr (ht_children (hs ! j)) \<and>
        ht_x (hs ! j) = pt_x (cs ! j) \<and> ht_y (hs ! j) = pt_y (cs ! j))"
proof (induction cs arbitrary: i hs)
  case Nil
  then show ?case by simp
next
  case (Cons pos rest)
  from Cons.prems obtain ch hs' where ch: "renderPlanets data i = Inr ch"
    and hs': "mapHouses data (Suc i) rest = Inr hs'"
    and hs: "hs = \<lparr>ht_x = pt_x pos, ht_y = pt_y pos, ht_children = ch\<rparr> # hs'"
    by (auto split: sum.splits)
  from Cons.IH [OF hs'] show ?case
    by (auto simp: hs ch nth_Cons split: nat.splits)
qed

lemma mapHouses_total:
  "(\<forall>j<length cs. \<exists>r. renderPlanets data (i + j) = Inr r) \<Longrightarrow> \<exists>hs. mapHouses data i cs = Inr hs"
proof (induction cs arbitrary: i)
  case Nil
  then show ?case by simp
next
  case (Cons pos rest)
  from Cons.prems obtain ch where ch: "renderPlanets data i = Inr ch"
    by fastforce
  have "\<forall>j<length rest. \<exists>r. renderPlanets data (Suc i + j) = Inr r"
  proof (intro allI impI)
    fix j assume "j < length rest"
    then have "Suc j < length (pos # rest)" by simp
    with Cons.prems have "\<exists>r. renderPlanets data (i + Suc j) = Inr r" by blast
    then show "\<exists>r. renderPlanets data (Suc i + j) = Inr r" by simp
  qed
  from Cons.IH [OF this] obtain hs where "mapHouses data (Suc i) rest = Inr hs" ..
  with ch show ?case by simp
qed

lemma NorthIndianChart_result:
  assumes "NorthIndianChart data asc = Inr c"
  shows "grid c = gridLines" and "signs c = signTexts (ascNum asc)" and "length (houses c) = 12"
    and "h < 12 \<Longrightarrow> renderPlanets data h = Inr (ht_children (houses c ! h))"
    and "h < 12 \<Longrightarrow> ht_x (houses c ! h) = pt_x (HOUSE_CENTERS ! h)"
    and "h < 12 \<Longrightarrow> ht_y (houses c ! h) = pt_y (HOUSE_CENTERS ! h)"
proof -
  from assms obtain hs where hs: "mapHouses data 0 HOUSE_CENTERS = Inr hs"
    and c: "c = \<lparr>box = outerBox, grid = gridLines, houses = hs, signs = signTexts (ascNum asc)\<rparr>"
    by (auto simp: NorthIndianChart_def split: sum.splits)
  note r = mapHouses_result [OF hs, unfolded length_HOUSE_CENTERS]
  show "grid c = gridLines" and "signs c = signTexts (ascNum asc)"
    by (simp_all add: c)
  show "length (houses c) = 12"
    using r by (simp add: c)
  show "h < 12 \<Longrightarrow> renderPlanets data h = Inr (ht_children (houses c ! h))"
    using r by (simp add: c)
  show "h < 12 \<Longrightarrow> ht_x (houses c ! h) = pt_x (HOUSE_CENTERS ! h)"
    using r by (simp add: c)
  show "h < 12 \<Longrightarrow> ht_y (houses c ! h) = pt_y (HOUSE_CENTERS ! h)"
    using r by (simp add: c)
qed

lemma NorthIndianChart_total:
  assumes "\<forall>h<12. \<exists>r. renderPlanets data h = Inr r"
  shows "\<exists>c. NorthIndianChart data asc = Inr c"
proof -
  from assms have "\<forall>j<length HOUSE_CENTERS. \<exists>r. renderPlanets data (0 + j) = Inr r"
    by (simp add: length_HOUSE_CENTERS)
  from mapHouses_total [OF this] obtain hs where "mapHouses data 0 HOUSE_CENTERS = Inr hs" ..
  then show ?thesis
    by (simp add: NorthIndianChart_def)
qed

lemma renderPlanets_cong:
  "getProp d1 (houseKey h) = getProp d2 (houseKey h) \<Longrightarrow> renderPlanets d1 h = renderPlanets d2 h"
  by (simp add: renderPlanets_def)

lemma mapHouses_positions:
  "mapHouses data i cs = Inr hs \<Longrightarrow>
     map (\<lambda>t. (ht_x t, ht_y t)) hs = map (\<lambda>p. (pt_x p, pt_y p)) cs"
  by (induction cs arbitrary: i hs) (auto split: sum.splits)

section \<open>Sign numbers\<close>

lemma js_rem_nonneg: "0 \<le> a \<Longrightarrow> js_rem a 12 = a mod 12"
  by (cases "a = 0") (simp_all add: js_rem_def)

lemma getSignNum_ordinal:
  "1 \<le> a \<Longrightarrow> 0 \<le> h \<Longrightarrow> getSignNum (SNumber a) h = Num ((a + h - 1) mod 12 + 1)"
  by (simp add: js_rem_nonneg)

lemma rotation_of_ordinals:
  assumes "1 \<le> a" and "a \<le> 12"
  shows "map (\<lambda>h. (a + h - 1) mod 12 + 1) [0, 1, 2, 3, 4, 5, 6, 7, 8, 9, 10, 11] =
         rotate (nat (a - 1)) [1, 2, 3, 4, 5, 6, 7, 8, 9, 10, 11, 12 :: int]"
proof -
  from assms have "a \<in> {1, 2, 3, 4, 5, 6, 7, 8, 9, 10, 11, 12}"
    by simp arith
  then show ?thesis
    by (elim insertE emptyE) (simp_all add: eval_nat_numeral)
qed

lemma sign_in_range: "1 \<le> (a + h - 1) mod 12 + 1 \<and> (a + h - 1) mod 12 + 1 \<le> (12 :: int)"
  by (simp add: add_increasing zle_add1_eq_le)

lemma signs_rotate:
  assumes "1 \<le> a" and "a \<le> 12"
  shows "map (getSignNum (SNumber a)) [0, 1, 2, 3, 4, 5, 6, 7, 8, 9, 10, 11] =
         map Num (rotate (nat (a - 1)) [1, 2, 3, 4, 5, 6, 7, 8, 9, 10, 11, 12])"
proof -
  have "map (getSignNum (SNumber a)) [0, 1, 2, 3, 4, 5, 6, 7, 8, 9, 10, 11] =
        map Num (map (\<lambda>h. (a + h - 1) mod 12 + 1) [0, 1, 2, 3, 4, 5, 6, 7, 8, 9, 10, 11])"
    using assms(1) by (simp add: js_rem_nonneg)
  also have "\<dots> = map Num (rotate (nat (a - 1)) [1, 2, 3, 4, 5, 6, 7, 8, 9, 10, 11, 12])"
    by (simp only: rotation_of_ordinals [OF assms])
  finally show ?thesis .
qed

lemma rotate_starts_at:
  assumes "1 \<le> a" and "a \<le> 12"
  shows "hd (rotate (nat (a - 1)) [1, 2, 3, 4, 5, 6, 7, 8, 9, 10, 11, 12 :: int]) = a"
proof -
  from assms have "a \<in> {1, 2, 3, 4, 5, 6, 7, 8, 9, 10, 11, 12}"
    by simp arith
  then show ?thesis
    by (elim insertE emptyE) (simp_all add: eval_nat_numeral)
qed

text \<open>
  Claim C1. For an ascendant ordinal \<open>a\<close> from 1 to 12 and a house index \<open>h\<close> from 0 to 11,
  \<open>getSignNum\<close> returns \<open>((a + h - 1) mod 12) + 1\<close>, a number from 1 to 12; the twelve sign
  numbers of the houses 0 to 11 are the list 1, ..., 12 rotated to start at \<open>a\<close>; and
  house 0 carries \<open>a\<close> itself. One formula serves every house.
\<close>

theorem getSignNum_rotation:
  assumes "1 \<le> a" and "a \<le> 12" and "0 \<le> h" and "h \<le> 11"
  shows "getSignNum (SNumber a) h = Num ((a + h - 1) mod 12 + 1)
       \<and> 1 \<le> (a + h - 1) mod 12 + 1 \<and> (a + h - 1) mod 12 + 1 \<le> 12
       \<and> map (getSignNum (SNumber a)) [0, 1, 2, 3, 4, 5, 6, 7, 8, 9, 10, 11] =
           map Num (rotate (nat (a - 1)) [1, 2, 3, 4, 5, 6, 7, 8, 9, 10, 11, 12])
       \<and> hd (rotate (nat (a - 1)) [1, 2, 3, 4, 5, 6, 7, 8, 9, 10, 11, 12 :: int]) = a
       \<and> getSignNum (SNumber a) 0 = Num a"
proof (intro conjI)
  show "getSignNum (SNumber a) h = Num ((a + h - 1) mod 12 + 1)"
    using assms(1,3) by (rule getSignNum_ordinal)
  show "1 \<le> (a + h - 1) mod 12 + 1" and "(a + h - 1) mod 12 + 1 \<le> 12"
    using sign_in_range [of a h] by simp_all
  show "map (getSignNum (SNumber a)) [0, 1, 2, 3, 4, 5, 6, 7, 8, 9, 10, 11] =
        map Num (rotate (nat (a - 1)) [1, 2, 3, 4, 5, 6, 7, 8, 9, 10, 11, 12])"
    using assms(1,2) by (rule signs_rotate)
  show "hd (rotate (nat (a - 1)) [1, 2, 3, 4, 5, 6, 7, 8, 9, 10, 11, 12 :: int]) = a"
    using assms(1,2) by (rule rotate_starts_at)
  show "getSignNum (SNumber a) 0 = Num a"
    using assms(1,2) by (simp add: js_rem_nonneg)
qed

theorem getSignNum_rotation_witness:
  "getSignNum (SNumber 10) 3 = Num 1
   \<and> map (getSignNum (SNumber 10)) [0, 1, 2, 3, 4, 5, 6, 7, 8, 9, 10, 11] =
       map Num [10, 11, 12, 1, 2, 3, 4, 5, 6, 7, 8, 9]
   \<and> getSignNum (SNumber 10) 0 = Num 10"
  using getSignNum_rotation [of 10 3] by (simp add: eval_nat_numeral)

lemma sign_positions:
  "map (\<lambda>s. (st_x s, st_y s)) (signTexts a) =
     [(50, 42), (15, 8), (5, 18), (40, 52), (5, 85), (15, 95),
      (50, 60), (85, 95), (95, 85), (60, 52), (95, 18), (85, 8)]"
  by (simp add: signTexts_def)

lemma sign_numbers:
  "map st_num (signTexts a) = map (getSignNum a) [0, 1, 2, 3, 4, 5, 6, 7, 8, 9, 10, 11]"
  by (simp add: signTexts_def)

lemma length_signTexts: "length (signTexts a) = 12"
  by (simp add: signTexts_def)

lemma ascNum_recognized: "map_of SIGN_MAP k = Some n \<Longrightarrow> ascNum k = SNumber n \<and> 1 \<le> n \<and> n \<le> 12"
  by (auto simp: ascNum_def lookupSign_def SIGN_MAP_def split: if_splits)

lemma ascNum_default:
  "map_of SIGN_MAP k = None \<Longrightarrow> k \<notin> set Object_prototype \<Longrightarrow> ascNum k = SNumber 1"
  by (simp add: ascNum_def lookupSign_def)

lemma ascNum_inherited:
  "map_of SIGN_MAP k = None \<Longrightarrow> k \<in> set Object_prototype \<Longrightarrow> ascNum k = SInherited k"
  by (simp add: ascNum_def lookupSign_def)

lemma constructor_not_sign: "map_of SIGN_MAP (ascii ''constructor'') = None"
  by (simp add: SIGN_MAP_def ascii_def)

lemma constructor_inherited: "ascii ''constructor'' \<in> set Object_prototype"
  by (simp add: Object_prototype_def)

text \<open>
  Claim C2. An ascendant sign name that is not one of the twelve recognised names is
  meant to default to Aries (\<open>|| 1\<close>). The name \<open>constructor\<close> is not a key of
  \<open>SIGN_MAP\<close>, yet the lookup finds the inherited function, which is truthy: the default
  is not taken, and all twelve sign numbers of the chart are \<open>NaN\<close>, where the chart of an
  Aries ascendant has 1, ..., 12.
\<close>

theorem constructor_ascendant_NaN:
  "map_of SIGN_MAP (ascii ''constructor'') = None
   \<and> map_sum id (\<lambda>c. map st_num (signs c)) (NorthIndianChart (JObj []) (ascii ''constructor'')) =
       Inr [NaN, NaN, NaN, NaN, NaN, NaN, NaN, NaN, NaN, NaN, NaN, NaN]
   \<and> map_sum id (\<lambda>c. map st_num (signs c)) (NorthIndianChart (JObj []) (ascii ''Aries'')) =
       Inr [Num 1, Num 2, Num 3, Num 4, Num 5, Num 6, Num 7, Num 8, Num 9, Num 10, Num 11, Num 12]"
proof (intro conjI)
  show "map_of SIGN_MAP (ascii ''constructor'') = None"
    by (rule constructor_not_sign)
  have houses: "\<exists>hs. mapHouses (JObj []) 0 HOUSE_CENTERS = Inr hs"
    by (rule mapHouses_total) (simp add: renderPlanets_def)
  have aries: "ascNum (ascii ''Aries'') = SNumber 1"
    by (simp add: ascNum_def lookupSign_def SIGN_MAP_def)
  from houses show "map_sum id (\<lambda>c. map st_num (signs c))
      (NorthIndianChart (JObj []) (ascii ''constructor'')) =
       Inr [NaN, NaN, NaN, NaN, NaN, NaN, NaN, NaN, NaN, NaN, NaN, NaN]"
    by (auto simp: NorthIndianChart_def sign_numbers
        ascNum_inherited [OF constructor_not_sign constructor_inherited])
  from houses show "map_sum id (\<lambda>c. map st_num (signs c))
      (NorthIndianChart (JObj []) (ascii ''Aries'')) =
       Inr [Num 1, Num 2, Num 3, Num 4, Num 5, Num 6, Num 7, Num 8, Num 9, Num 10, Num 11, Num 12]"
    by (auto simp: NorthIndianChart_def sign_numbers aries js_rem_def)
qed

section \<open>Planet labels\<close>

lemma stacked_offset:
  assumes "\<forall>j<length ts. ts_dy (ts ! j) = (if j = 0 then 0 else 12)"
    and "i < length ts"
  shows "sum_list (map ts_dy (take (Suc i) ts)) = 12 * int i"
  using assms(2)
proof (induction i)
  case 0
  then show ?case
    using assms(1) by (cases ts) auto
next
  case (Suc i)
  then have "take (Suc (Suc i)) ts = take (Suc i) ts @ [ts ! Suc i]"
    by (simp only: take_Suc_conv_app_nth)
  moreover have "ts_dy (ts ! Suc i) = 12"
    using assms(1) Suc.prems by simp
  moreover have "sum_list (map ts_dy (take (Suc i) ts)) = 12 * int i"
    using Suc by simp
  ultimately show ?case
    by simp
qed

lemma renderPlanets_named:
  assumes "h < 12"
    and "getProp data (houseKey h) = Inr entry"
    and "getProp entry (ascii ''planets'') = Inr (JArr ps)"
    and "map (\<lambda>p. getProp p (ascii ''name'')) ps = map (\<lambda>s. Inr (JStr s)) ns"
  shows "renderPlanets data h =
           Inr (Some (map (\<lambda>(j, s). \<lparr>ts_key = s, ts_x = pt_x (HOUSE_CENTERS ! h),
                                ts_dy = (if j = 0 then 0 else 12), ts_text = take 2 s\<rparr>)
                  (enumerate 0 ns)))"
  by (simp add: renderPlanets_array [OF assms(2,3)] mapPlanets_named [OF assms(1,4)])

text \<open>
  Claim C3. For a house \<open>h\<close> whose entry lists planets with the names \<open>ns\<close>, one label is
  rendered per planet, in list order: each has the \<open>x\<close> of the house's centre, the first
  has \<open>dy = 0\<close> and every later one \<open>dy = 12\<close>, so that the offset of label \<open>i\<close> from the
  anchor (the sum of the \<open>dy\<close> up to it) is \<open>12 * i\<close>, strictly increasing. When the other
  houses render, the chart is produced, and in it (as in every chart produced from these
  data) the text element of house \<open>h\<close> sits at the house's centre and holds these labels.
\<close>

theorem planets_stacked:
  assumes "h < 12"
    and "getProp data (houseKey h) = Inr entry"
    and "getProp entry (ascii ''planets'') = Inr (JArr ps)"
    and "map (\<lambda>p. getProp p (ascii ''name'')) ps = map (\<lambda>s. Inr (JStr s)) ns"
  shows "\<exists>ts. renderPlanets data h = Inr (Some ts) \<and> length ts = length ns \<and>
           (\<forall>i<length ns.
              ts_x (ts ! i) = pt_x (HOUSE_CENTERS ! h) \<and>
              ts_dy (ts ! i) = (if i = 0 then 0 else 12) \<and>
              ts_text (ts ! i) = take 2 (ns ! i) \<and>
              sum_list (map ts_dy (take (Suc i) ts)) = 12 * int i) \<and>
           (\<forall>i j. i < j \<and> j < length ns \<longrightarrow>
              sum_list (map ts_dy (take (Suc i) ts)) < sum_list (map ts_dy (take (Suc j) ts))) \<and>
           (\<forall>c. NorthIndianChart data asc = Inr c \<longrightarrow>
              ht_children (houses c ! h) = Some ts \<and>
              ht_x (houses c ! h) = pt_x (HOUSE_CENTERS ! h) \<and>
              ht_y (houses c ! h) = pt_y (HOUSE_CENTERS ! h)) \<and>
           ((\<forall>j<12. j \<noteq> h \<longrightarrow> (\<exists>r. renderPlanets data j = Inr r)) \<longrightarrow>
            (\<exists>c. NorthIndianChart data asc = Inr c \<and>
               ht_children (houses c ! h) = Some ts \<and>
               ht_x (houses c ! h) = pt_x (HOUSE_CENTERS ! h) \<and>
               ht_y (houses c ! h) = pt_y (HOUSE_CENTERS ! h)))"
proof -
  define ts where "ts = map (\<lambda>(j, s). \<lparr>ts_key = s, ts_x = pt_x (HOUSE_CENTERS ! h),
      ts_dy = (if j = 0 then 0 else 12), ts_text = take 2 s\<rparr>) (enumerate 0 ns)"
  have r: "renderPlanets data h = Inr (Some ts)"
    unfolding ts_def using assms by (rule renderPlanets_named)
  have len: "length ts = length ns"
    by (simp add: ts_def)
  have nth: "ts ! i = \<lparr>ts_key = ns ! i, ts_x = pt_x (HOUSE_CENTERS ! h),
      ts_dy = (if i = 0 then 0 else 12), ts_text = take 2 (ns ! i)\<rparr>" if "i < length ns" for i
    using that by (simp add: ts_def nth_enumerate_eq)
  have dy: "\<forall>j<length ts. ts_dy (ts ! j) = (if j = 0 then 0 else 12)"
    by (simp add: len nth)
  have off: "sum_list (map ts_dy (take (Suc i) ts)) = 12 * int i" if "i < length ns" for i
    using stacked_offset [OF dy] that by (simp add: len)
  have labels: "\<forall>i<length ns.
          ts_x (ts ! i) = pt_x (HOUSE_CENTERS ! h) \<and>
          ts_dy (ts ! i) = (if i = 0 then 0 else 12) \<and>
          ts_text (ts ! i) = take 2 (ns ! i) \<and>
          sum_list (map ts_dy (take (Suc i) ts)) = 12 * int i"
    by (simp add: nth off)
  have increasing: "\<forall>i j. i < j \<and> j < length ns \<longrightarrow>
          sum_list (map ts_dy (take (Suc i) ts)) < sum_list (map ts_dy (take (Suc j) ts))"
    by (simp add: off)
  have placed: "ht_children (houses c ! h) = Some ts \<and>
          ht_x (houses c ! h) = pt_x (HOUSE_CENTERS ! h) \<and>
          ht_y (houses c ! h) = pt_y (HOUSE_CENTERS ! h)"
    if c: "NorthIndianChart data asc = Inr c" for c
  proof -
    from NorthIndianChart_result(4) [OF c assms(1)] r
    have "ht_children (houses c ! h) = Some ts" by simp
    with NorthIndianChart_result(5,6) [OF c assms(1)]
    show ?thesis by simp
  qed
  then have every: "\<forall>c. NorthIndianChart data asc = Inr c \<longrightarrow>
          ht_children (houses c ! h) = Some ts \<and>
          ht_x (houses c ! h) = pt_x (HOUSE_CENTERS ! h) \<and>
          ht_y (houses c ! h) = pt_y (HOUSE_CENTERS ! h)"
    by blast
  have produced: "(\<forall>j<12. j \<noteq> h \<longrightarrow> (\<exists>r. renderPlanets data j = Inr r)) \<longrightarrow>
          (\<exists>c. NorthIndianChart data asc = Inr c \<and>
             ht_children (houses c ! h) = Some ts \<and>
             ht_x (houses c ! h) = pt_x (HOUSE_CENTERS ! h) \<and>
             ht_y (houses c ! h) = pt_y (HOUSE_CENTERS ! h))"
  proof
    assume others: "\<forall>j<12. j \<noteq> h \<longrightarrow> (\<exists>r. renderPlanets data j = Inr r)"
    with r have "\<forall>j<12. \<exists>r. renderPlanets data j = Inr r"
      by metis
    from NorthIndianChart_total [OF this]
    obtain c where c: "NorthIndianChart data asc = Inr c" ..
    with placed [OF c] show "\<exists>c. NorthIndianChart data asc = Inr c \<and>
             ht_children (houses c ! h) = Some ts \<and>
             ht_x (houses c ! h) = pt_x (HOUSE_CENTERS ! h) \<and>
             ht_y (houses c ! h) = pt_y (HOUSE_CENTERS ! h)"
      by blast
  qed
  from r len labels increasing every produced show ?thesis
    by blast
qed

theorem planets_stacked_witness:
  "\<exists>ts. renderPlanets
          (JObj [(ascii ''house_1'',
                  JObj [(ascii ''planets'',
                         JArr [JObj [(ascii ''name'', JStr (ascii ''Sun''))],
                               JObj [(ascii ''name'', JStr (ascii ''Mercury''))],
                               JObj [(ascii ''name'', JStr (ascii ''Venus''))]])])]) 0 = Inr (Some ts)
        \<and> length ts = 3
        \<and> map ts_x ts = [50, 50, 50]
        \<and> map ts_text ts = [ascii ''Su'', ascii ''Me'', ascii ''Ve'']
        \<and> sum_list (map ts_dy (take 1 ts)) = 0
        \<and> sum_list (map ts_dy (take 2 ts)) = 12
        \<and> sum_list (map ts_dy (take 3 ts)) = 24
        \<and> (\<exists>c. NorthIndianChart
                  (JObj [(ascii ''house_1'',
                          JObj [(ascii ''planets'',
                                 JArr [JObj [(ascii ''name'', JStr (ascii ''Sun''))],
                                       JObj [(ascii ''name'', JStr (ascii ''Mercury''))],
                                       JObj [(ascii ''name'', JStr (ascii ''Venus''))]])])])
                  (ascii ''Aries'') = Inr c
              \<and> ht_children (houses c ! 0) = Some ts
              \<and> ht_x (houses c ! 0) = 50 \<and> ht_y (houses c ! 0) = 20)"
proof -
  let ?ps = "[JObj [(ascii ''name'', JStr (ascii ''Sun''))],
              JObj [(ascii ''name'', JStr (ascii ''Mercury''))],
              JObj [(ascii ''name'', JStr (ascii ''Venus''))]]"
  let ?entry = "JObj [(ascii ''planets'', JArr ?ps)]"
  let ?data = "JObj [(ascii ''house_1'', ?entry)]"
  let ?ns = "[ascii ''Sun'', ascii ''Mercury'', ascii ''Venus'']"
  have 1: "(0::nat) < 12" by simp
  have 2: "getProp ?data (houseKey 0) = Inr ?entry"
    by (simp add: houseKeys)
  have 3: "getProp ?entry (ascii ''planets'') = Inr (JArr ?ps)"
    by simp
  have 4: "map (\<lambda>p. getProp p (ascii ''name'')) ?ps = map (\<lambda>s. Inr (JStr s)) ?ns"
    by simp
  have others: "\<forall>j<12. j \<noteq> 0 \<longrightarrow> (\<exists>r. renderPlanets ?data j = Inr r)"
  proof (intro allI impI)
    fix j :: nat assume "j < 12" and "j \<noteq> 0"
    then have "j \<in> {1, 2, 3, 4, 5, 6, 7, 8, 9, 10, 11}"
      using less_12_cases [of j] by simp
    then show "\<exists>r. renderPlanets ?data j = Inr r"
      by (elim insertE emptyE) (simp_all add: renderPlanets_def houseKeys ascii_def)
  qed
  from planets_stacked [OF 1 2 3 4, of "ascii ''Aries''"] others
  obtain ts c where r: "renderPlanets ?data 0 = Inr (Some ts)" and len: "length ts = 3"
    and each: "\<forall>i<3. ts_x (ts ! i) = pt_x (HOUSE_CENTERS ! 0) \<and>
              ts_dy (ts ! i) = (if i = 0 then 0 else 12) \<and>
              ts_text (ts ! i) = take 2 (?ns ! i) \<and>
              sum_list (map ts_dy (take (Suc i) ts)) = 12 * int i"
    and c: "NorthIndianChart ?data (ascii ''Aries'') = Inr c"
    and kids: "ht_children (houses c ! 0) = Some ts"
    and pos: "ht_x (houses c ! 0) = pt_x (HOUSE_CENTERS ! 0)"
      "ht_y (houses c ! 0) = pt_y (HOUSE_CENTERS ! 0)"
    by auto
  from len obtain a b d where ts: "ts = [a, b, d]"
    by (auto simp: length_Suc_conv eval_nat_numeral)
  have chart: "\<exists>c. NorthIndianChart ?data (ascii ''Aries'') = Inr c
              \<and> ht_children (houses c ! 0) = Some ts
              \<and> ht_x (houses c ! 0) = 50 \<and> ht_y (houses c ! 0) = 20"
    using c kids pos by (intro exI [of _ c]) (simp add: HOUSE_CENTERS_def)
  from each [rule_format, of 0] each [rule_format, of 1] each [rule_format, of 2] r len
  have "length ts = 3 \<and> map ts_x ts = [50, 50, 50]
        \<and> map ts_text ts = [ascii ''Su'', ascii ''Me'', ascii ''Ve'']
        \<and> sum_list (map ts_dy (take 1 ts)) = 0
        \<and> sum_list (map ts_dy (take 2 ts)) = 12
        \<and> sum_list (map ts_dy (take 3 ts)) = 24"
    by (simp add: ts HOUSE_CENTERS_def ascii_def)
  with r chart show ?thesis
    by (intro exI [of _ ts]) blast
qed

section \<open>Houses without planets\<close>

lemma renderPlanets_missing:
  assumes "getProp data (houseKey h) = Inr entry"
    and "entry = JUndefined \<or> entry = JNull \<or>
         getProp entry (ascii ''planets'') = Inr JUndefined \<or>
         getProp entry (ascii ''planets'') = Inr JNull"
  shows "renderPlanets data h = Inr None"
  using assms by (auto simp: renderPlanets_def)

lemma renderPlanets_no_data:
  "renderPlanets JNull h = Inl TypeError" "renderPlanets JUndefined h = Inl TypeError"
  by (simp_all add: renderPlanets_def)

text \<open>
  Claim C4. When the chart data has no entry for house \<open>h\<close> (the lookup gives \<open>undefined\<close>
  or \<open>null\<close>), or the entry has no planet list, \<open>renderPlanets\<close> returns \<open>null\<close> without an
  error: the house has no planet label. If the other houses render, the whole chart
  renders, with every other house showing what \<open>renderPlanets\<close> gives for it and with
  the twelve sign numbers; and the other houses, the sign numbers and the grid are the
  same as in any chart whose data differ only in the entry of house \<open>h\<close>.
\<close>

theorem missing_house_is_empty:
  assumes "h < 12"
    and "getProp data (houseKey h) = Inr entry"
    and "entry = JUndefined \<or> entry = JNull \<or>
         getProp entry (ascii ''planets'') = Inr JUndefined \<or>
         getProp entry (ascii ''planets'') = Inr JNull"
  shows "renderPlanets data h = Inr None \<and>
         ((\<forall>j<12. j \<noteq> h \<longrightarrow> (\<exists>r. renderPlanets data j = Inr r)) \<longrightarrow>
          (\<exists>c. NorthIndianChart data asc = Inr c \<and>
               ht_children (houses c ! h) = None \<and>
               (\<forall>j<12. renderPlanets data j = Inr (ht_children (houses c ! j))) \<and>
               signs c = signTexts (ascNum asc) \<and> length (signs c) = 12)) \<and>
         (\<forall>data' c c'.
             (\<forall>j<12. j \<noteq> h \<longrightarrow> getProp data' (houseKey j) = getProp data (houseKey j)) \<and>
             NorthIndianChart data asc = Inr c \<and> NorthIndianChart data' asc = Inr c' \<longrightarrow>
             (\<forall>j<12. j \<noteq> h \<longrightarrow> houses c' ! j = houses c ! j) \<and>
             signs c' = signs c \<and> grid c' = grid c)"
proof (intro conjI)
  show none: "renderPlanets data h = Inr None"
    using assms(2,3) by (rule renderPlanets_missing)
  show "(\<forall>j<12. j \<noteq> h \<longrightarrow> (\<exists>r. renderPlanets data j = Inr r)) \<longrightarrow>
          (\<exists>c. NorthIndianChart data asc = Inr c \<and>
               ht_children (houses c ! h) = None \<and>
               (\<forall>j<12. renderPlanets data j = Inr (ht_children (houses c ! j))) \<and>
               signs c = signTexts (ascNum asc) \<and> length (signs c) = 12)"
  proof
    assume others: "\<forall>j<12. j \<noteq> h \<longrightarrow> (\<exists>r. renderPlanets data j = Inr r)"
    with none have "\<forall>j<12. \<exists>r. renderPlanets data j = Inr r"
      by metis
    from NorthIndianChart_total [OF this]
    obtain c where c: "NorthIndianChart data asc = Inr c" ..
    have "ht_children (houses c ! h) = None"
      using NorthIndianChart_result(4) [OF c assms(1)] none by simp
    moreover have "\<forall>j<12. renderPlanets data j = Inr (ht_children (houses c ! j))"
      using NorthIndianChart_result(4) [OF c] by simp
    moreover have "signs c = signTexts (ascNum asc)"
      using c by (rule NorthIndianChart_result(2))
    ultimately show "\<exists>c. NorthIndianChart data asc = Inr c \<and>
               ht_children (houses c ! h) = None \<and>
               (\<forall>j<12. renderPlanets data j = Inr (ht_children (houses c ! j))) \<and>
               signs c = signTexts (ascNum asc) \<and> length (signs c) = 12"
      using c by (simp add: length_signTexts)
  qed
  show "\<forall>data' c c'.
             (\<forall>j<12. j \<noteq> h \<longrightarrow> getProp data' (houseKey j) = getProp data (houseKey j)) \<and>
             NorthIndianChart data asc = Inr c \<and> NorthIndianChart data' asc = Inr c' \<longrightarrow>
             (\<forall>j<12. j \<noteq> h \<longrightarrow> houses c' ! j = houses c ! j) \<and>
             signs c' = signs c \<and> grid c' = grid c"
  proof (intro allI impI, elim conjE)
    fix data' c c'
    assume agree: "\<forall>j<12. j \<noteq> h \<longrightarrow> getProp data' (houseKey j) = getProp data (houseKey j)"
      and c: "NorthIndianChart data asc = Inr c" and c': "NorthIndianChart data' asc = Inr c'"
    have "houses c' ! j = houses c ! j" if "j < 12" and "j \<noteq> h" for j
    proof -
      from agree that have "getProp data' (houseKey j) = getProp data (houseKey j)"
        by simp
      then have "renderPlanets data' j = renderPlanets data j"
        by (rule renderPlanets_cong)
      with NorthIndianChart_result(4) [OF c that(1)] NorthIndianChart_result(4) [OF c' that(1)]
      have "ht_children (houses c' ! j) = ht_children (houses c ! j)" by simp
      moreover have "ht_x (houses c' ! j) = ht_x (houses c ! j)"
        by (simp add: NorthIndianChart_result(5) [OF c that(1)] NorthIndianChart_result(5) [OF c' that(1)])
      moreover have "ht_y (houses c' ! j) = ht_y (houses c ! j)"
        by (simp add: NorthIndianChart_result(6) [OF c that(1)] NorthIndianChart_result(6) [OF c' that(1)])
      ultimately show ?thesis by simp
    qed
    moreover have "signs c' = signs c"
      by (simp add: NorthIndianChart_result(2) [OF c] NorthIndianChart_result(2) [OF c'])
    moreover have "grid c' = grid c"
      by (simp add: NorthIndianChart_result(1) [OF c] NorthIndianChart_result(1) [OF c'])
    ultimately show "(\<forall>j<12. j \<noteq> h \<longrightarrow> houses c' ! j = houses c ! j) \<and>
             signs c' = signs c \<and> grid c' = grid c" by simp
  qed
qed

theorem missing_house_is_empty_witness:
  "renderPlanets
     (JObj [(ascii ''house_1'', JObj [(ascii ''lord'', JStr (ascii ''Mars''))]),
            (ascii ''house_2'',
             JObj [(ascii ''planets'', JArr [JObj [(ascii ''name'', JStr (ascii ''Sun''))]])])]) 0 =
     Inr None
   \<and> (\<exists>c. NorthIndianChart
          (JObj [(ascii ''house_1'', JObj [(ascii ''lord'', JStr (ascii ''Mars''))]),
                 (ascii ''house_2'',
                  JObj [(ascii ''planets'', JArr [JObj [(ascii ''name'', JStr (ascii ''Sun''))]])])])
          (ascii ''Aries'') = Inr c
        \<and> ht_children (houses c ! 0) = None \<and> length (signs c) = 12)"
proof -
  let ?entry = "JObj [(ascii ''lord'', JStr (ascii ''Mars''))]"
  let ?data = "JObj [(ascii ''house_1'', ?entry),
            (ascii ''house_2'',
             JObj [(ascii ''planets'', JArr [JObj [(ascii ''name'', JStr (ascii ''Sun''))]])])]"
  have 1: "(0::nat) < 12" by simp
  have 2: "getProp ?data (houseKey 0) = Inr ?entry"
    by (simp add: houseKeys)
  have 3: "?entry = JUndefined \<or> ?entry = JNull \<or>
         getProp ?entry (ascii ''planets'') = Inr JUndefined \<or>
         getProp ?entry (ascii ''planets'') = Inr JNull"
    by (simp add: ascii_def)
  have others: "\<forall>j<12. j \<noteq> 0 \<longrightarrow> (\<exists>r. renderPlanets ?data j = Inr r)"
  proof (intro allI impI)
    fix j :: nat assume "j < 12" and "j \<noteq> 0"
    then have "j \<in> {1, 2, 3, 4, 5, 6, 7, 8, 9, 10, 11}"
      using less_12_cases [of j] by simp
    then show "\<exists>r. renderPlanets ?data j = Inr r"
      by (elim insertE emptyE)
        (simp_all add: renderPlanets_def houseKeys planetSpan_def length_HOUSE_CENTERS, simp_all add: ascii_def)
  qed
  from missing_house_is_empty [OF 1 2 3, of "ascii ''Aries''"] others
  show ?thesis by blast
qed

lemma renderPlanets_empty_list:
  assumes "getProp data (houseKey h) = Inr entry"
    and "getProp entry (ascii ''planets'') = Inr (JArr [])"
  shows "renderPlanets data h = Inr (Some [])"
  by (simp add: renderPlanets_array [OF assms])

text \<open>
  Claim C5. When each of the twelve houses has an entry with an empty planet list, the
  chart renders for every ascendant sign name, no house has a planet label, and the
  twelve sign-number elements are present, carrying \<open>getSignNum\<close> of the houses 0 to 11;
  for a recognised sign of ordinal \<open>a\<close> these are 1, ..., 12 rotated to start at \<open>a\<close>.
\<close>

theorem empty_houses_chart:
  assumes "\<forall>h<12. \<exists>entry. getProp data (houseKey h) = Inr entry \<and>
             getProp entry (ascii ''planets'') = Inr (JArr [])"
  shows "\<exists>c. NorthIndianChart data asc = Inr c \<and>
           (\<forall>h<12. ht_children (houses c ! h) = Some []) \<and>
           concat (map (\<lambda>t. case ht_children t of None \<Rightarrow> [] | Some ts \<Rightarrow> ts) (houses c)) = [] \<and>
           length (signs c) = 12 \<and>
           map st_num (signs c) =
             map (getSignNum (ascNum asc)) [0, 1, 2, 3, 4, 5, 6, 7, 8, 9, 10, 11] \<and>
           (\<forall>a. map_of SIGN_MAP asc = Some a \<longrightarrow>
              map st_num (signs c) =
                map Num (rotate (nat (a - 1)) [1, 2, 3, 4, 5, 6, 7, 8, 9, 10, 11, 12]))"
proof -
  have each: "renderPlanets data h = Inr (Some [])" if "h < 12" for h
    using assms that renderPlanets_empty_list by blast
  then have "\<forall>h<12. \<exists>r. renderPlanets data h = Inr r"
    by simp
  from NorthIndianChart_total [OF this]
  obtain c where c: "NorthIndianChart data asc = Inr c" ..
  have ch: "\<forall>h<12. ht_children (houses c ! h) = Some []"
    using NorthIndianChart_result(4) [OF c] each by simp
  have "\<forall>t\<in>set (houses c). ht_children t = Some []"
    using ch NorthIndianChart_result(3) [OF c] by (auto simp: in_set_conv_nth)
  then have none: "concat (map (\<lambda>t. case ht_children t of None \<Rightarrow> [] | Some ts \<Rightarrow> ts) (houses c)) = []"
    by simp
  have s: "signs c = signTexts (ascNum asc)"
    using c by (rule NorthIndianChart_result(2))
  have nums: "map st_num (signs c) =
      map (getSignNum (ascNum asc)) [0, 1, 2, 3, 4, 5, 6, 7, 8, 9, 10, 11]"
    by (simp only: s sign_numbers)
  have "\<forall>a. map_of SIGN_MAP asc = Some a \<longrightarrow>
      map st_num (signs c) =
        map Num (rotate (nat (a - 1)) [1, 2, 3, 4, 5, 6, 7, 8, 9, 10, 11, 12])"
  proof (intro allI impI)
    fix a assume "map_of SIGN_MAP asc = Some a"
    from ascNum_recognized [OF this]
    have a: "ascNum asc = SNumber a" and "1 \<le> a" and "a \<le> 12"
      by simp_all
    then show "map st_num (signs c) =
        map Num (rotate (nat (a - 1)) [1, 2, 3, 4, 5, 6, 7, 8, 9, 10, 11, 12])"
      by (simp only: nums a signs_rotate)
  qed
  with c ch none nums show ?thesis
    by (simp add: s length_signTexts)
qed

theorem empty_houses_chart_witness:
  "\<exists>c. NorthIndianChart
         (JObj [(ascii ''house_1'', JObj [(ascii ''planets'', JArr [])]),
                (ascii ''house_2'', JObj [(ascii ''planets'', JArr [])]),
                (ascii ''house_3'', JObj [(ascii ''planets'', JArr [])]),
                (ascii ''house_4'', JObj [(ascii ''planets'', JArr [])]),
                (ascii ''house_5'', JObj [(ascii ''planets'', JArr [])]),
                (ascii ''house_6'', JObj [(ascii ''planets'', JArr [])]),
                (ascii ''house_7'', JObj [(ascii ''planets'', JArr [])]),
                (ascii ''house_8'', JObj [(ascii ''planets'', JArr [])]),
                (ascii ''house_9'', JObj [(ascii ''planets'', JArr [])]),
                (ascii ''house_10'', JObj [(ascii ''planets'', JArr [])]),
                (ascii ''house_11'', JObj [(ascii ''planets'', JArr [])]),
                (ascii ''house_12'', JObj [(ascii ''planets'', JArr [])])])
         (ascii ''Libra'') = Inr c
       \<and> concat (map (\<lambda>t. case ht_children t of None \<Rightarrow> [] | Some ts \<Rightarrow> ts) (houses c)) = []
       \<and> length (signs c) = 12
       \<and> map st_num (signs c) =
           map Num [7, 8, 9, 10, 11, 12, 1, 2, 3, 4, 5, 6]"
proof -
  let ?e = "JObj [(ascii ''planets'', JArr [])]"
  let ?data = "JObj [(ascii ''house_1'', ?e), (ascii ''house_2'', ?e), (ascii ''house_3'', ?e),
                (ascii ''house_4'', ?e), (ascii ''house_5'', ?e), (ascii ''house_6'', ?e),
                (ascii ''house_7'', ?e), (ascii ''house_8'', ?e), (ascii ''house_9'', ?e),
                (ascii ''house_10'', ?e), (ascii ''house_11'', ?e), (ascii ''house_12'', ?e)]"
  have hyp: "\<forall>h<12. \<exists>entry. getProp ?data (houseKey h) = Inr entry \<and>
             getProp entry (ascii ''planets'') = Inr (JArr [])"
  proof (intro allI impI)
    fix h :: nat assume "h < 12"
    then have "h \<in> {0, 1, 2, 3, 4, 5, 6, 7, 8, 9, 10, 11}"
      by (rule less_12_cases)
    then have "getProp ?data (houseKey h) = Inr ?e"
      by (elim insertE emptyE) (simp_all add: houseKeys ascii_def)
    then show "\<exists>entry. getProp ?data (houseKey h) = Inr entry \<and>
             getProp entry (ascii ''planets'') = Inr (JArr [])"
      by simp
  qed
  have libra: "map_of SIGN_MAP (ascii ''Libra'') = Some 7"
    by (simp add: SIGN_MAP_def ascii_def)
  from empty_houses_chart [OF hyp, of "ascii ''Libra''"] libra
  show ?thesis
    by (auto simp: eval_nat_numeral)
qed

section \<open>Planet lists of any length\<close>

text \<open>
  Claim C7. No limit on the planets of a house: for a planet list of any length \<open>n\<close>,
  \<open>renderPlanets\<close> produces exactly \<open>n\<close> labels, one display code per planet in list
  order, and the last label lies \<open>12 * (n - 1)\<close> below the anchor; nothing fails and
  nothing is cut.
\<close>

theorem no_planet_limit:
  assumes "h < 12"
    and "getProp data (houseKey h) = Inr entry"
    and "getProp entry (ascii ''planets'') = Inr (JArr ps)"
    and "map (\<lambda>p. getProp p (ascii ''name'')) ps = map (\<lambda>s. Inr (JStr s)) ns"
  shows "\<exists>ts. renderPlanets data h = Inr (Some ts) \<and> length ts = length ps \<and>
           map ts_text ts = map (take 2) ns \<and>
           (ps \<noteq> [] \<longrightarrow> sum_list (map ts_dy ts) = 12 * (int (length ps) - 1))"
proof -
  define ts where "ts = map (\<lambda>(j, s). \<lparr>ts_key = s, ts_x = pt_x (HOUSE_CENTERS ! h),
      ts_dy = (if j = 0 then 0 else 12), ts_text = take 2 s\<rparr>) (enumerate 0 ns)"
  have r: "renderPlanets data h = Inr (Some ts)"
    unfolding ts_def using assms by (rule renderPlanets_named)
  have len: "length ns = length ps"
    using assms(4) by (rule map_eq_imp_length_eq [symmetric])
  have lts: "length ts = length ps"
    by (simp add: ts_def len)
  have codes: "map ts_text ts = map (take 2) ns"
    by (rule nth_equalityI) (simp_all add: ts_def nth_enumerate_eq)
  have dy: "\<forall>j<length ts. ts_dy (ts ! j) = (if j = 0 then 0 else 12)"
    by (simp add: ts_def nth_enumerate_eq)
  have "sum_list (map ts_dy ts) = 12 * (int (length ps) - 1)" if "ps \<noteq> []"
  proof -
    from that lts have "length ps - 1 < length ts" and "Suc (length ps - 1) = length ts"
      by simp_all
    with stacked_offset [OF dy, of "length ps - 1"] that show ?thesis
      by (simp add: of_nat_diff)
  qed
  with r lts codes show ?thesis
    by blast
qed

theorem no_planet_limit_witness:
  "\<exists>ts. renderPlanets
          (JObj [(ascii ''house_1'',
                  JObj [(ascii ''planets'',
                         JArr [JObj [(ascii ''name'', JStr (ascii ''Sun''))],
                               JObj [(ascii ''name'', JStr (ascii ''Moon''))],
                               JObj [(ascii ''name'', JStr (ascii ''Mars''))],
                               JObj [(ascii ''name'', JStr (ascii ''Mercury''))],
                               JObj [(ascii ''name'', JStr (ascii ''Jupiter''))],
                               JObj [(ascii ''name'', JStr (ascii ''Venus''))],
                               JObj [(ascii ''name'', JStr (ascii ''Saturn''))],
                               JObj [(ascii ''name'', JStr (ascii ''Rahu''))]])])]) 0 = Inr (Some ts)
        \<and> length ts = 8
        \<and> map ts_text ts = [ascii ''Su'', ascii ''Mo'', ascii ''Ma'', ascii ''Me'',
                             ascii ''Ju'', ascii ''Ve'', ascii ''Sa'', ascii ''Ra'']
        \<and> sum_list (map ts_dy ts) = 84"
proof -
  let ?ps = "[JObj [(ascii ''name'', JStr (ascii ''Sun''))],
              JObj [(ascii ''name'', JStr (ascii ''Moon''))],
              JObj [(ascii ''name'', JStr (ascii ''Mars''))],
              JObj [(ascii ''name'', JStr (ascii ''Mercury''))],
              JObj [(ascii ''name'', JStr (ascii ''Jupiter''))],
              JObj [(ascii ''name'', JStr (ascii ''Venus''))],
              JObj [(ascii ''name'', JStr (ascii ''Saturn''))],
              JObj [(ascii ''name'', JStr (ascii ''Rahu''))]]"
  let ?entry = "JObj [(ascii ''planets'', JArr ?ps)]"
  let ?data = "JObj [(ascii ''house_1'', ?entry)]"
  let ?ns = "[ascii ''Sun'', ascii ''Moon'', ascii ''Mars'', ascii ''Mercury'',
              ascii ''Jupiter'', ascii ''Venus'', ascii ''Saturn'', ascii ''Rahu'']"
  have 1: "(0::nat) < 12" by simp
  have 2: "getProp ?data (houseKey 0) = Inr ?entry"
    by (simp add: houseKeys)
  have 3: "getProp ?entry (ascii ''planets'') = Inr (JArr ?ps)"
    by simp
  have 4: "map (\<lambda>p. getProp p (ascii ''name'')) ?ps = map (\<lambda>s. Inr (JStr s)) ?ns"
    by simp
  from no_planet_limit [OF 1 2 3 4] show ?thesis
    by (auto simp: ascii_def)
qed

text \<open>
  Claim C8. For a planet whose name is a string of any length, producing the label does
  not fail, and the display code is \<open>name.substring(0, 2)\<close>: the first two code units of
  the name, or the whole name when it has fewer (the empty string included).
\<close>

theorem display_code_truncates:
  assumes "h < 12" and "getProp p (ascii ''name'') = Inr (JStr s)"
  shows "\<exists>t. planetSpan h i p = Inr t \<and> ts_text t = take 2 s \<and>
           length (ts_text t) = min 2 (length s) \<and> s = ts_text t @ drop 2 s \<and>
           (length s \<le> 2 \<longrightarrow> ts_text t = s)"
  by (simp add: planetSpan_named [OF assms] min.commute)

theorem display_code_truncates_witness:
  "(\<exists>t. planetSpan 0 0 (JObj [(ascii ''name'', JStr [])]) = Inr t \<and> ts_text t = [])
   \<and> (\<exists>t. planetSpan 0 0 (JObj [(ascii ''name'', JStr (ascii ''K''))]) = Inr t \<and>
          ts_text t = ascii ''K'')
   \<and> (\<exists>t. planetSpan 0 0 (JObj [(ascii ''name'', JStr (ascii ''Ketu''))]) = Inr t \<and>
          ts_text t = ascii ''Ke'')"
proof -
  have 1: "(0::nat) < 12" by simp
  have a: "getProp (JObj [(ascii ''name'', JStr [])]) (ascii ''name'') = Inr (JStr [])"
    by simp
  have b: "getProp (JObj [(ascii ''name'', JStr (ascii ''K''))]) (ascii ''name'') =
      Inr (JStr (ascii ''K''))"
    by simp
  have c: "getProp (JObj [(ascii ''name'', JStr (ascii ''Ketu''))]) (ascii ''name'') =
      Inr (JStr (ascii ''Ketu''))"
    by simp
  from display_code_truncates [OF 1 a, of 0] display_code_truncates [OF 1 b, of 0]
    display_code_truncates [OF 1 c, of 0]
  show ?thesis
    by (auto simp: ascii_def)
qed

section \<open>Anchors\<close>

lemma sign_position_nth:
  assumes "h < 12"
  shows "(st_x (signTexts a ! h), st_y (signTexts a ! h)) =
           [(50, 42), (15, 8), (5, 18), (40, 52), (5, 85), (15, 95),
            (50, 60), (85, 95), (95, 85), (60, 52), (95, 18), (85, 8)] ! h"
proof -
  have "(st_x (signTexts a ! h), st_y (signTexts a ! h)) =
        map (\<lambda>s. (st_x s, st_y s)) (signTexts a) ! h"
    using assms by (simp add: length_signTexts)
  then show ?thesis
    by (simp only: sign_positions)
qed

text \<open>
  Claim C9. The anchors of a house are constants: in any two renders, whatever the chart
  data and the ascendant signs, the text element of house \<open>h\<close> sits at
  \<open>HOUSE_CENTERS[h]\<close> and its sign number at the position written for it in the markup.
\<close>

theorem anchors_fixed:
  assumes "h < 12"
    and "NorthIndianChart d a = Inr c"
    and "NorthIndianChart d' a' = Inr c'"
  shows "ht_x (houses c ! h) = pt_x (HOUSE_CENTERS ! h) \<and>
         ht_y (houses c ! h) = pt_y (HOUSE_CENTERS ! h) \<and>
         ht_x (houses c' ! h) = ht_x (houses c ! h) \<and>
         ht_y (houses c' ! h) = ht_y (houses c ! h) \<and>
         (st_x (signs c ! h), st_y (signs c ! h)) =
           [(50, 42), (15, 8), (5, 18), (40, 52), (5, 85), (15, 95),
            (50, 60), (85, 95), (95, 85), (60, 52), (95, 18), (85, 8)] ! h \<and>
         st_x (signs c' ! h) = st_x (signs c ! h) \<and>
         st_y (signs c' ! h) = st_y (signs c ! h)"
proof -
  note c = NorthIndianChart_result [OF assms(2)]
  note c' = NorthIndianChart_result [OF assms(3)]
  have "ht_x (houses c ! h) = pt_x (HOUSE_CENTERS ! h)"
    and "ht_y (houses c ! h) = pt_y (HOUSE_CENTERS ! h)"
    and "ht_x (houses c' ! h) = ht_x (houses c ! h)"
    and "ht_y (houses c' ! h) = ht_y (houses c ! h)"
    using c(5,6) c'(5,6) assms(1) by simp_all
  moreover have "(st_x (signs c ! h), st_y (signs c ! h)) =
           [(50, 42), (15, 8), (5, 18), (40, 52), (5, 85), (15, 95),
            (50, 60), (85, 95), (95, 85), (60, 52), (95, 18), (85, 8)] ! h"
    by (simp only: c(2) sign_position_nth [OF assms(1)])
  moreover have "(st_x (signs c' ! h), st_y (signs c' ! h)) = (st_x (signs c ! h), st_y (signs c ! h))"
    by (simp only: c(2) c'(2) sign_position_nth [OF assms(1)])
  then have "st_x (signs c' ! h) = st_x (signs c ! h) \<and> st_y (signs c' ! h) = st_y (signs c ! h)"
    by simp
  ultimately show ?thesis
    by simp
qed

theorem anchors_fixed_witness:
  "\<exists>c c'. NorthIndianChart (JObj []) (ascii ''Aries'') = Inr c
     \<and> NorthIndianChart
          (JObj [(ascii ''house_1'',
                  JObj [(ascii ''planets'', JArr [JObj [(ascii ''name'', JStr (ascii ''Moon''))]])])])
          (ascii ''Libra'') = Inr c'
     \<and> ht_children (houses c ! 0) \<noteq> ht_children (houses c' ! 0)
     \<and> st_num (signs c ! 0) \<noteq> st_num (signs c' ! 0)
     \<and> (ht_x (houses c' ! 0), ht_y (houses c' ! 0)) = (50, 20)
     \<and> (ht_x (houses c ! 0), ht_y (houses c ! 0)) = (50, 20)
     \<and> (st_x (signs c' ! 0), st_y (signs c' ! 0)) = (50, 42)
     \<and> (st_x (signs c ! 0), st_y (signs c ! 0)) = (50, 42)"
proof -
  let ?d' = "JObj [(ascii ''house_1'',
                  JObj [(ascii ''planets'', JArr [JObj [(ascii ''name'', JStr (ascii ''Moon''))]])])]"
  have "\<forall>h<12. \<exists>r. renderPlanets (JObj []) h = Inr r"
    by (simp add: renderPlanets_def)
  from NorthIndianChart_total [OF this]
  obtain c where c: "NorthIndianChart (JObj []) (ascii ''Aries'') = Inr c" ..
  have "\<forall>h<12. \<exists>r. renderPlanets ?d' h = Inr r"
  proof (intro allI impI)
    fix h :: nat assume "h < 12"
    then have "h \<in> {0, 1, 2, 3, 4, 5, 6, 7, 8, 9, 10, 11}"
      by (rule less_12_cases)
    then show "\<exists>r. renderPlanets ?d' h = Inr r"
      by (elim insertE emptyE)
        (simp_all add: renderPlanets_def houseKeys planetSpan_def length_HOUSE_CENTERS ascii_def)
  qed
  from NorthIndianChart_total [OF this]
  obtain c' where c': "NorthIndianChart ?d' (ascii ''Libra'') = Inr c'" ..
  have 0: "(0::nat) < 12" by simp
  have r: "renderPlanets (JObj []) 0 = Inr None"
    by (simp add: renderPlanets_def)
  have r': "renderPlanets ?d' 0 =
      Inr (Some [\<lparr>ts_key = ascii ''Moon'', ts_x = 50, ts_dy = 0, ts_text = ascii ''Mo''\<rparr>])"
    by (simp add: renderPlanets_def houseKeys planetSpan_def length_HOUSE_CENTERS ascii_def
        HOUSE_CENTERS_def)
  have k: "ht_children (houses c ! 0) = None"
    using NorthIndianChart_result(4) [OF c 0] r by simp
  have k': "ht_children (houses c' ! 0) =
      Some [\<lparr>ts_key = ascii ''Moon'', ts_x = 50, ts_dy = 0, ts_text = ascii ''Mo''\<rparr>]"
    using NorthIndianChart_result(4) [OF c' 0] r' by simp
  have kids: "ht_children (houses c ! 0) \<noteq> ht_children (houses c' ! 0)"
    by (simp add: k k')
  have "ascNum (ascii ''Aries'') = SNumber 1" and "ascNum (ascii ''Libra'') = SNumber 7"
    by (simp_all add: ascNum_def lookupSign_def SIGN_MAP_def ascii_def)
  then have nums: "st_num (signs c ! 0) \<noteq> st_num (signs c' ! 0)"
    by (simp add: NorthIndianChart_result(2) [OF c] NorthIndianChart_result(2) [OF c']
        signTexts_def js_rem_def)
  from anchors_fixed [OF 0 c c'] kids nums c c' show ?thesis
    by (intro exI [of _ c] exI [of _ c']) (simp add: HOUSE_CENTERS_def)
qed

lemma house_positions:
  "map (\<lambda>p. (pt_x p, pt_y p)) HOUSE_CENTERS =
     [(50, 20), (20, 10), (10, 20), (25, 50), (10, 80), (20, 90),
      (50, 80), (80, 90), (90, 80), (75, 50), (90, 20), (80, 10)]"
  by (simp add: HOUSE_CENTERS_def)

text \<open>
  Claim C10. In every rendered chart the twelve house text elements sit at the points of
  \<open>HOUSE_CENTERS\<close> and the twelve sign numbers at the positions of the markup; the
  positions of each kind are pairwise distinct, all twenty-four are distinct, and every
  coordinate lies between 0 and 100. The table \<open>SIGN_POSITIONS\<close>, which nothing reads,
  has the pair (50, 45) at its first and at its tenth entry.
\<close>

theorem rendered_positions_distinct:
  assumes "NorthIndianChart data asc = Inr c"
  shows "length (houses c) = 12 \<and> length (signs c) = 12 \<and>
         map (\<lambda>t. (ht_x t, ht_y t)) (houses c) = map (\<lambda>p. (pt_x p, pt_y p)) HOUSE_CENTERS \<and>
         distinct (map (\<lambda>t. (ht_x t, ht_y t)) (houses c)) \<and>
         distinct (map (\<lambda>s. (st_x s, st_y s)) (signs c)) \<and>
         distinct (map (\<lambda>t. (ht_x t, ht_y t)) (houses c) @ map (\<lambda>s. (st_x s, st_y s)) (signs c)) \<and>
         (\<forall>t\<in>set (houses c). 0 \<le> ht_x t \<and> ht_x t \<le> 100 \<and> 0 \<le> ht_y t \<and> ht_y t \<le> 100) \<and>
         (\<forall>s\<in>set (signs c). 0 \<le> st_x s \<and> st_x s \<le> 100 \<and> 0 \<le> st_y s \<and> st_y s \<le> 100) \<and>
         length SIGN_POSITIONS = 10 \<and>
         (sp_x (SIGN_POSITIONS ! 0), sp_y (SIGN_POSITIONS ! 0)) = (50, 45) \<and>
         (sp_x (SIGN_POSITIONS ! 9), sp_y (SIGN_POSITIONS ! 9)) = (50, 45)"
proof -
  from assms obtain hs where hs: "mapHouses data 0 HOUSE_CENTERS = Inr hs"
    and c: "c = \<lparr>box = outerBox, grid = gridLines, houses = hs, signs = signTexts (ascNum asc)\<rparr>"
    by (auto simp: NorthIndianChart_def split: sum.splits)
  have hp: "map (\<lambda>t. (ht_x t, ht_y t)) (houses c) =
      [(50, 20), (20, 10), (10, 20), (25, 50), (10, 80), (20, 90),
       (50, 80), (80, 90), (90, 80), (75, 50), (90, 20), (80, 10)]"
    using mapHouses_positions [OF hs] by (simp add: c house_positions)
  have sp: "map (\<lambda>s. (st_x s, st_y s)) (signs c) =
      [(50, 42), (15, 8), (5, 18), (40, 52), (5, 85), (15, 95),
       (50, 60), (85, 95), (95, 85), (60, 52), (95, 18), (85, 8)]"
    by (simp add: c sign_positions)
  have "\<forall>q\<in>set (map (\<lambda>t. (ht_x t, ht_y t)) (houses c)).
          0 \<le> fst q \<and> fst q \<le> 100 \<and> 0 \<le> snd q \<and> snd q \<le> 100"
    by (simp only: hp) simp
  then have hb: "\<forall>t\<in>set (houses c). 0 \<le> ht_x t \<and> ht_x t \<le> 100 \<and> 0 \<le> ht_y t \<and> ht_y t \<le> 100"
    by simp
  have "\<forall>q\<in>set (map (\<lambda>s. (st_x s, st_y s)) (signs c)).
          0 \<le> fst q \<and> fst q \<le> 100 \<and> 0 \<le> snd q \<and> snd q \<le> 100"
    by (simp only: sp) simp
  then have sb: "\<forall>s\<in>set (signs c). 0 \<le> st_x s \<and> st_x s \<le> 100 \<and> 0 \<le> st_y s \<and> st_y s \<le> 100"
    by simp
  have d1: "distinct (map (\<lambda>t. (ht_x t, ht_y t)) (houses c))"
    by (simp only: hp) simp
  have d2: "distinct (map (\<lambda>s. (st_x s, st_y s)) (signs c))"
    by (simp only: sp) simp
  have d3: "distinct (map (\<lambda>t. (ht_x t, ht_y t)) (houses c) @ map (\<lambda>s. (st_x s, st_y s)) (signs c))"
    by (simp only: hp sp) simp
  have l1: "length (houses c) = 12"
    using assms by (rule NorthIndianChart_result(3))
  have l2: "length (signs c) = 12"
    by (simp add: c length_signTexts)
  have eq: "map (\<lambda>t. (ht_x t, ht_y t)) (houses c) = map (\<lambda>p. (pt_x p, pt_y p)) HOUSE_CENTERS"
    by (simp only: hp house_positions)
  have tab: "length SIGN_POSITIONS = 10 \<and>
         (sp_x (SIGN_POSITIONS ! 0), sp_y (SIGN_POSITIONS ! 0)) = (50, 45) \<and>
         (sp_x (SIGN_POSITIONS ! 9), sp_y (SIGN_POSITIONS ! 9)) = (50, 45)"
    by (simp add: SIGN_POSITIONS_def)
  from l1 l2 eq d1 d2 d3 hb sb tab show ?thesis
    by blast
qed

theorem rendered_positions_distinct_witness:
  "\<exists>c. NorthIndianChart (JObj []) (ascii ''Aries'') = Inr c
     \<and> distinct (map (\<lambda>t. (ht_x t, ht_y t)) (houses c))
     \<and> distinct (map (\<lambda>s. (st_x s, st_y s)) (signs c))
     \<and> (\<forall>t\<in>set (houses c). 0 \<le> ht_x t \<and> ht_x t \<le> 100 \<and> 0 \<le> ht_y t \<and> ht_y t \<le> 100)
     \<and> (\<forall>s\<in>set (signs c). 0 \<le> st_x s \<and> st_x s \<le> 100 \<and> 0 \<le> st_y s \<and> st_y s \<le> 100)"
proof -
  have "\<forall>h<12. \<exists>r. renderPlanets (JObj []) h = Inr r"
    by (simp add: renderPlanets_def)
  from NorthIndianChart_total [OF this]
  obtain c where c: "NorthIndianChart (JObj []) (ascii ''Aries'') = Inr c" ..
  from rendered_positions_distinct [OF c] c show ?thesis
    by blast
qed

end
